theory Spec2Isabelle
  imports Main "HOL-Library.Multiset"
begin

section \<open>Data model (shared schema)\<close>

text \<open>
  The game of truth and lie cards: the shared schema, the in-memory storage
  (\<^verbatim>\<open>server/storage.ts\<close>) and the HTTP handlers that change a game
  (\<^verbatim>\<open>server/routes.ts\<close>).

  Every record field called \<^verbatim>\<open>id\<close> or \<^verbatim>\<open>type\<close> in the
  schema carries the name of its record here, since \<open>id\<close> is a constant of HOL and
  \<open>type\<close> is not an identifier. JavaScript numbers that only ever hold a length, a
  count or a clock value are natural numbers.
\<close>

datatype CardType = Truth | Lie

record Card =
  card_id :: string
  card_type :: CardType

record Player =
  player_id :: string
  name :: string
  cardCount :: nat
  cards :: "Card list"
  avatar :: string
  isOnline :: bool

datatype GamePhase = Waiting | Playing | Accusation | Revelation | Finished

datatype EventType =
  EvCardPlayed | EvAccusation | EvRevelation | EvPenalty | EvJoin | EvLeave | EvGameStart

record GameEvent =
  event_id :: string
  event_type :: EventType
  playerId :: string
  playerName :: string
  targetId :: "string option"
  targetName :: "string option"
  cardType :: "CardType option"
  timestamp :: nat
  message :: string

record GameState =
  game_id :: string
  phase :: GamePhase
  players :: "Player list"
  currentPlayerId :: string
  centerPile :: "Card list"
  lastPlayedCard :: "Card option"
  lastPlayerId :: "string option"
  accusingPlayerId :: "string option"
  revealedCard :: "Card option"
  events :: "GameEvent list"
  turnTimer :: nat
  maxPlayers :: nat
  minPlayers :: nat

text \<open>
  The failures of the storage methods and of the handlers, one constructor for each
  message: "Game not found", "Game is full", "Player not found" (and "Player not found
  in game"), "Not your turn", "Card not found", "No card to accuse".
\<close>

datatype error =
  GameNotFound | GameFull | PlayerNotFound | NotYourTurn | CardNotFound | NoCardToAccuse

text \<open>
  A handler works on the game object held by the storage and changes it in place. Its
  model returns the failure, if any, together with the game as the handler leaves it.
\<close>

type_synonym outcome = "error option \<times> GameState"

section \<open>Helpers of the JavaScript runtime\<close>

text \<open>
  \<^verbatim>\<open>Array.prototype.findIndex\<close>: the index of the first element that satisfies the
  predicate; \<open>None\<close> stands for \<^verbatim>\<open>-1\<close>. \<^verbatim>\<open>Array.prototype.find\<close> returns
  the element at that index (a reference into the array), or \<^verbatim>\<open>undefined\<close>.
\<close>

fun findIndex :: "('a \<Rightarrow> bool) \<Rightarrow> 'a list \<Rightarrow> nat option" where
  "findIndex P [] = None"
| "findIndex P (x # xs) = (if P x then Some 0 else map_option Suc (findIndex P xs))"

text \<open>\<^verbatim>\<open>xs.splice(i, 1)\<close> leaves \<open>xs\<close> without its element at index \<open>i\<close>.\<close>

definition spliceOut :: "nat \<Rightarrow> 'a list \<Rightarrow> 'a list" where
  "spliceOut i xs = take i xs @ drop (Suc i) xs"

text \<open>A number inside a template string: its decimal digits.\<close>

fun string_of_nat :: "nat \<Rightarrow> string" where
  "string_of_nat n =
     (if n < 10 then [char_of (48 + n)]
      else string_of_nat (n div 10) @ [char_of (48 + n mod 10)])"

text \<open>
  The messages are French; the letter e with an acute accent is written as its two
  bytes in UTF-8.
\<close>

definition e_acute :: string where
  "e_acute = [CHR 0xC3, CHR 0xA9]"

section \<open>Deck generator (storage.ts, createDeck)\<close>

text \<open>
  The sources of randomness are parameters. \<open>uuid k\<close> is the value of the \<open>k\<close>-th
  call of \<^verbatim>\<open>randomUUID()\<close> inside the function, and \<open>rnd i\<close> is the value of
  \<^verbatim>\<open>Math.floor(Math.random() * (i + 1))\<close> at loop index \<open>i\<close>, an integer between
  \<open>0\<close> and \<open>i\<close> since \<^verbatim>\<open>Math.random()\<close> lies in \<open>[0, 1)\<close>.
\<close>

text \<open>
  The shuffle: \<^verbatim>\<open>for (let i = deck.length - 1; i > 0; i--)\<close> with the body
  \<^verbatim>\<open>[deck[i], deck[j]] = [deck[j], deck[i]]\<close>. The first argument after \<open>rnd\<close>
  is the loop index.
\<close>

fun shuffleFrom :: "(nat \<Rightarrow> nat) \<Rightarrow> nat \<Rightarrow> Card list \<Rightarrow> Card list" where
  "shuffleFrom rnd 0 deck = deck"
| "shuffleFrom rnd (Suc k) deck =
     (let i = Suc k; j = rnd i
      in shuffleFrom rnd k (deck[i := deck ! j, j := deck ! i]))"

definition createDeck :: "(nat \<Rightarrow> string) \<Rightarrow> (nat \<Rightarrow> nat) \<Rightarrow> Card list" where
  "createDeck uuid rnd =
     (let deck = map (\<lambda>i. \<lparr>card_id = uuid i, card_type = Truth\<rparr>) [0..<30]
               @ map (\<lambda>i. \<lparr>card_id = uuid (30 + i), card_type = Lie\<rparr>) [0..<30]
      in shuffleFrom rnd (length deck - 1) deck)"

text \<open>
  routes.ts, createPenaltyCards: ten cards; \<open>coin i\<close> is the value of
  \<^verbatim>\<open>Math.random() > 0.5\<close> for card \<open>i\<close>.
\<close>

definition createPenaltyCards :: "(nat \<Rightarrow> string) \<Rightarrow> (nat \<Rightarrow> bool) \<Rightarrow> Card list" where
  "createPenaltyCards uuid coin =
     map (\<lambda>i. \<lparr>card_id = uuid i, card_type = (if coin i then Truth else Lie)\<rparr>) [0..<10]"

text \<open>
  storage.ts, generateGameId: six characters of the alphabet; \<open>pick i\<close> is the value of
  \<^verbatim>\<open>Math.floor(Math.random() * chars.length)\<close> at step \<open>i\<close>, and
  \<^verbatim>\<open>charAt\<close> yields the empty string out of range.
\<close>

definition generateGameId :: "(nat \<Rightarrow> nat) \<Rightarrow> string" where
  "generateGameId pick =
     (let chars = ''ABCDEFGHIJKLMNOPQRSTUVWXYZ0123456789''
      in concat (map (\<lambda>i. if pick i < length chars then [chars ! pick i] else []) [0..<6]))"

section \<open>Game registry (storage.ts)\<close>

text \<open>
  A game-changing method of the storage takes the identifiers and the clock values it
  draws (\<^verbatim>\<open>randomUUID()\<close>, \<^verbatim>\<open>Date.now()\<close>) as arguments, in the order of its
  calls.
\<close>

definition createGame ::
  "string \<Rightarrow> (nat \<Rightarrow> string) \<Rightarrow> (nat \<Rightarrow> nat) \<Rightarrow> string \<Rightarrow> nat \<Rightarrow> Player \<Rightarrow> GameState" where
  "createGame gameId uuid rnd eid now hostPlayer =
     (let deck = createDeck uuid rnd;
          playerCards = take 7 deck
      in \<lparr>game_id = gameId,
          phase = Waiting,
          players = [hostPlayer\<lparr>cards := playerCards, cardCount := length playerCards\<rparr>],
          currentPlayerId = player_id hostPlayer,
          centerPile = [],
          lastPlayedCard = None,
          lastPlayerId = None,
          accusingPlayerId = None,
          revealedCard = None,
          events = [\<lparr>event_id = eid, event_type = EvJoin,
                     playerId = player_id hostPlayer, playerName = name hostPlayer,
                     targetId = None, targetName = None, cardType = None,
                     timestamp = now,
                     message = name hostPlayer @ '' a cr'' @ e_acute @ e_acute @ '' la partie''\<rparr>],
          turnTimer = 45,
          maxPlayers = 6,
          minPlayers = 2\<rparr>)"

text \<open>
  addPlayerToGame, from the capacity check on. The start condition is tested twice, as
  in the source.
\<close>

definition addPlayerToGame ::
  "(nat \<Rightarrow> string) \<Rightarrow> (nat \<Rightarrow> nat) \<Rightarrow> string \<Rightarrow> nat \<Rightarrow> string \<Rightarrow> nat \<Rightarrow> Player
     \<Rightarrow> GameState \<Rightarrow> outcome" where
  "addPlayerToGame uuid rnd eid now eid2 now2 player game =
     (if length (players game) \<ge> maxPlayers game then (Some GameFull, game)
      else
        let deck = createDeck uuid rnd;
            playerCards = take 7 deck;
            newPlayer = player\<lparr>cards := playerCards, cardCount := length playerCards\<rparr>;
            game1 = game\<lparr>players := players game @ [newPlayer]\<rparr>;
            game2 = game1\<lparr>events := events game1 @
                      [\<lparr>event_id = eid, event_type = EvJoin,
                        playerId = player_id player, playerName = name player,
                        targetId = None, targetName = None, cardType = None,
                        timestamp = now,
                        message = name player @ '' a rejoint la partie''\<rparr>]\<rparr>;
            game3 =
              (if length (players game2) \<ge> minPlayers game2 \<and> phase game2 = Waiting
               then game2\<lparr>phase := Playing,
                          events := events game2 @
                            [\<lparr>event_id = eid2, event_type = EvGameStart,
                              playerId = [], playerName = [],
                              targetId = None, targetName = None, cardType = None,
                              timestamp = now2,
                              message = ''La partie commence avec ''
                                @ string_of_nat (length (players game2)) @ '' joueurs !''\<rparr>]\<rparr>
               else game2);
            game4 =
              (if length (players game3) \<ge> minPlayers game3 \<and> phase game3 = Waiting
               then game3\<lparr>phase := Playing\<rparr>
               else game3)
        in (None, game4))"

definition removePlayerFromGame :: "string \<Rightarrow> nat \<Rightarrow> string \<Rightarrow> GameState \<Rightarrow> outcome" where
  "removePlayerFromGame eid now pid game =
     (case findIndex (\<lambda>p. player_id p = pid) (players game) of
        None \<Rightarrow> (Some PlayerNotFound, game)
      | Some playerIndex \<Rightarrow>
          let player = players game ! playerIndex;
              game1 = game\<lparr>players := spliceOut playerIndex (players game)\<rparr>;
              game2 = game1\<lparr>events := events game1 @
                        [\<lparr>event_id = eid, event_type = EvLeave,
                          playerId = player_id player, playerName = name player,
                          targetId = None, targetName = None, cardType = None,
                          timestamp = now,
                          message = name player @ '' a quitt'' @ e_acute @ '' la partie''\<rparr>]\<rparr>
          in (None, if length (players game2) < minPlayers game2
                    then game2\<lparr>phase := Finished\<rparr> else game2))"

section \<open>Handlers that change a game (routes.ts)\<close>

text \<open>
  Each handler first fetches the game by its identifier and answers "Game not found"
  when there is none; the definitions below are the rest of the handler, on the game
  found. \<open>eid\<close> and \<open>now\<close> are the values of \<^verbatim>\<open>randomUUID()\<close> and
  \<^verbatim>\<open>Date.now()\<close> for the event.
\<close>

text \<open>
  Play card. \<^verbatim>\<open>player\<close> is a reference to the first member with the identifier
  of the request, so the changes to its hand are changes to \<^verbatim>\<open>game.players\<close> at
  that index. In the rotation, \<^verbatim>\<open>findIndex\<close> answering \<^verbatim>\<open>-1\<close> would give
  the next index \<open>0\<close>.
\<close>

definition playCard :: "string \<Rightarrow> nat \<Rightarrow> string \<Rightarrow> string \<Rightarrow> GameState \<Rightarrow> outcome" where
  "playCard eid now pid cid game =
     (case findIndex (\<lambda>p. player_id p = pid) (players game) of
        None \<Rightarrow> (Some PlayerNotFound, game)
      | Some pidx \<Rightarrow>
          let player = players game ! pidx in
          if currentPlayerId game \<noteq> pid then (Some NotYourTurn, game)
          else
            (case findIndex (\<lambda>c. card_id c = cid) (cards player) of
               None \<Rightarrow> (Some CardNotFound, game)
             | Some cardIndex \<Rightarrow>
                 let playedCard = cards player ! cardIndex;
                     hand = spliceOut cardIndex (cards player);
                     player1 = player\<lparr>cards := hand, cardCount := length hand\<rparr>;
                     game1 = game\<lparr>players := (players game)[pidx := player1],
                                  centerPile := centerPile game @ [playedCard],
                                  lastPlayedCard := Some playedCard,
                                  lastPlayerId := Some pid\<rparr>
                 in
                 if length (cards player1) = 0 then
                   (None, game1\<lparr>phase := Finished,
                                events := events game1 @
                                  [\<lparr>event_id = eid, event_type = EvCardPlayed,
                                    playerId = player_id player1, playerName = name player1,
                                    targetId = None, targetName = None, cardType = None,
                                    timestamp = now,
                                    message = name player1 @ '' a gagn'' @ e_acute
                                      @ '' la partie !''\<rparr>]\<rparr>)
                 else
                   let nextIndex =
                         (case findIndex (\<lambda>p. player_id p = pid) (players game1) of
                            None \<Rightarrow> 0
                          | Some currentIndex \<Rightarrow>
                              (currentIndex + 1) mod length (players game1))
                   in (None, game1\<lparr>currentPlayerId := player_id (players game1 ! nextIndex),
                                   events := events game1 @
                                     [\<lparr>event_id = eid, event_type = EvCardPlayed,
                                       playerId = player_id player1,
                                       playerName = name player1,
                                       targetId = None, targetName = None, cardType = None,
                                       timestamp = now,
                                       message = name player1 @ '' a jou'' @ e_acute
                                         @ '' une carte''\<rparr>]\<rparr>)))"

text \<open>
  Accuse player. \<^verbatim>\<open>!game.lastPlayerId\<close> holds for \<^verbatim>\<open>undefined\<close> and for the
  empty string; a card object is never falsy. \<^verbatim>\<open>penaltyPlayer\<close> is a reference
  into \<^verbatim>\<open>game.players\<close>, at the index found for the accused or for the accusing
  player. \<open>uuid\<close> and \<open>coin\<close> feed the penalty cards.
\<close>

definition accusePlayer ::
  "(nat \<Rightarrow> string) \<Rightarrow> (nat \<Rightarrow> bool) \<Rightarrow> string \<Rightarrow> nat \<Rightarrow> string \<Rightarrow> string
     \<Rightarrow> GameState \<Rightarrow> outcome" where
  "accusePlayer uuid coin eid now accusingId accusedId game =
     (case lastPlayedCard game of
        None \<Rightarrow> (Some NoCardToAccuse, game)
      | Some lastCard \<Rightarrow>
          if lastPlayerId game = None \<or> lastPlayerId game = Some [] then
            (Some NoCardToAccuse, game)
          else
            (case findIndex (\<lambda>p. player_id p = accusingId) (players game) of
               None \<Rightarrow> (Some PlayerNotFound, game)
             | Some accusingIndex \<Rightarrow>
                 (case findIndex (\<lambda>p. player_id p = accusedId) (players game) of
                    None \<Rightarrow> (Some PlayerNotFound, game)
                  | Some accusedIndex \<Rightarrow>
                      let accusingPlayer = players game ! accusingIndex;
                          accusedPlayer = players game ! accusedIndex;
                          game1 = game\<lparr>phase := Revelation,
                                       revealedCard := lastPlayedCard game,
                                       accusingPlayerId := Some accusingId\<rparr>;
                          wasLie = (card_type lastCard = Lie);
                          penaltyIndex = (if wasLie then accusedIndex else accusingIndex);
                          penaltyPlayer = players game1 ! penaltyIndex;
                          deck = createPenaltyCards uuid coin;
                          penaltyCards = take 3 deck;
                          hand = cards penaltyPlayer @ penaltyCards;
                          game2 = game1\<lparr>players := (players game1)
                                    [penaltyIndex :=
                                       penaltyPlayer\<lparr>cards := hand, cardCount := length hand\<rparr>]\<rparr>
                      in (None, game2\<lparr>events := events game2 @
                            [\<lparr>event_id = eid, event_type = EvAccusation,
                              playerId = player_id accusingPlayer,
                              playerName = name accusingPlayer,
                              targetId = Some (player_id accusedPlayer),
                              targetName = Some (name accusedPlayer),
                              cardType = Some (card_type lastCard),
                              timestamp = now,
                              message = name accusingPlayer @ '' a accus'' @ e_acute @ '' ''
                                @ name accusedPlayer @ '' - ''
                                @ (if wasLie
                                   then ''Mensonge r'' @ e_acute @ ''v'' @ e_acute @ ''l''
                                        @ e_acute @ ''!''
                                   else ''V'' @ e_acute @ ''rit'' @ e_acute @ '' r'' @ e_acute
                                        @ ''v'' @ e_acute @ ''l'' @ e_acute @ ''e!'')\<rparr>]\<rparr>))))"

text \<open>Continue after the revelation: no check but the lookup of the game.\<close>

definition continueAfterRevelation :: "GameState \<Rightarrow> outcome" where
  "continueAfterRevelation game =
     (None, game\<lparr>phase := Playing, revealedCard := None, accusingPlayerId := None\<rparr>)"

section \<open>The operations on a session\<close>

text \<open>
  The requests that change an existing game, each with the values it draws, and the
  routing of a request to its handler or storage method. Joining goes to
  \<^verbatim>\<open>addPlayerToGame\<close>, a closed connection to \<^verbatim>\<open>removePlayerFromGame\<close>.
\<close>

datatype command =
  PlayCard string nat string string
| AccusePlayer "nat \<Rightarrow> string" "nat \<Rightarrow> bool" string nat string string
| ContinueAfterRevelation
| AddPlayer "nat \<Rightarrow> string" "nat \<Rightarrow> nat" string nat string nat Player
| RemovePlayer string nat string

fun perform :: "command \<Rightarrow> GameState \<Rightarrow> outcome" where
  "perform (PlayCard eid now pid cid) game = playCard eid now pid cid game"
| "perform (AccusePlayer uuid coin eid now accusingId accusedId) game =
     accusePlayer uuid coin eid now accusingId accusedId game"
| "perform ContinueAfterRevelation game = continueAfterRevelation game"
| "perform (AddPlayer uuid rnd eid now eid2 now2 player) game =
     addPlayerToGame uuid rnd eid now eid2 now2 player game"
| "perform (RemovePlayer eid now pid) game = removePlayerFromGame eid now pid game"

text \<open>
  The storage keeps the games by identifier. A request for an unknown identifier fails
  and changes nothing; otherwise the game object stored under the identifier is the one
  the operation changes. Every game is stored under its own \<^verbatim>\<open>id\<close>, as
  \<^verbatim>\<open>createGame\<close> stores it, so \<^verbatim>\<open>updateGame\<close> puts it back where it was.
\<close>

definition request :: "string \<Rightarrow> command \<Rightarrow> (string \<rightharpoonup> GameState) \<Rightarrow> error option \<times> (string \<rightharpoonup> GameState)" where
  "request gameId c games =
     (case games gameId of
        None \<Rightarrow> (Some GameNotFound, games)
      | Some game \<Rightarrow> (case perform c game of (r, game1) \<Rightarrow> (r, games(gameId \<mapsto> game1))))"

section \<open>Observations used in the properties\<close>

text \<open>All the cards of a session: the hands and the centre pile.\<close>

definition totalCards :: "GameState \<Rightarrow> nat" where
  "totalCards game = sum_list (map (\<lambda>p. length (cards p)) (players game)) + length (centerPile game)"

text \<open>The stored hand size of every member is the length of the hand.\<close>

definition countsInSync :: "GameState \<Rightarrow> bool" where
  "countsInSync game = list_all (\<lambda>p. cardCount p = length (cards p)) (players game)"

text \<open>
  The member a request names (the helper \<^verbatim>\<open>getPlayerById\<close> of the client's game
  utilities, the same \<^verbatim>\<open>find\<close> the handlers use).
\<close>

definition getPlayerById :: "GameState \<Rightarrow> string \<Rightarrow> Player option" where
  "getPlayerById game pid = find (\<lambda>p. player_id p = pid) (players game)"

text \<open>
  The sessions the server can hold: a game enters the storage through
  \<^verbatim>\<open>createGame\<close> and changes only through the operations above.
\<close>

inductive reachable :: "GameState \<Rightarrow> bool" where
  created: "reachable (createGame gameId uuid rnd eid now hostPlayer)"
| performed: "reachable game \<Longrightarrow> reachable (snd (perform c game))"

section \<open>A sample session\<close>

text \<open>
  Three members; Alice has just played a lie, it is Bob's turn and Bob holds one card.
\<close>

definition alice :: Player where
  "alice = \<lparr>player_id = ''A'', name = ''Alice'', cardCount = 2,
            cards = [\<lparr>card_id = ''a1'', card_type = Truth\<rparr>, \<lparr>card_id = ''a2'', card_type = Lie\<rparr>],
            avatar = ''A'', isOnline = True\<rparr>"

definition bob :: Player where
  "bob = \<lparr>player_id = ''B'', name = ''Bob'', cardCount = 1,
          cards = [\<lparr>card_id = ''b1'', card_type = Truth\<rparr>],
          avatar = ''B'', isOnline = True\<rparr>"

definition carol :: Player where
  "carol = \<lparr>player_id = ''C'', name = ''Carol'', cardCount = 2,
            cards = [\<lparr>card_id = ''c1'', card_type = Lie\<rparr>, \<lparr>card_id = ''c2'', card_type = Truth\<rparr>],
            avatar = ''C'', isOnline = True\<rparr>"

definition sampleGame :: GameState where
  "sampleGame =
     \<lparr>game_id = ''ABC123'',
      phase = Playing,
      players = [alice, bob, carol],
      currentPlayerId = ''B'',
      centerPile = [\<lparr>card_id = ''a0'', card_type = Lie\<rparr>],
      lastPlayedCard = Some \<lparr>card_id = ''a0'', card_type = Lie\<rparr>,
      lastPlayerId = Some ''A'',
      accusingPlayerId = None,
      revealedCard = None,
      events = [],
      turnTimer = 45,
      maxPlayers = 6,
      minPlayers = 2\<rparr>"

text \<open>The identifiers and the coin of the penalty cards in the examples.\<close>

definition sampleUuid :: "nat \<Rightarrow> string" where
  "sampleUuid k = replicate (Suc k) CHR ''u''"

definition sampleCoin :: "nat \<Rightarrow> bool" where
  "sampleCoin k = even k"

text \<open>The sample session after Bob has played his only card: he has won.\<close>

definition finishedGame :: GameState where
  "finishedGame = snd (perform (PlayCard ''e1'' 5 ''B'' ''b1'') sampleGame)"

text \<open>A session that waits for its second member.\<close>

definition waitingGame :: GameState where
  "waitingGame = sampleGame\<lparr>phase := Waiting, players := [alice], currentPlayerId := ''A'',
     centerPile := [], lastPlayedCard := None, lastPlayerId := None\<rparr>"

text \<open>The sample session when the card Alice played was a truth.\<close>

definition truthGame :: GameState where
  "truthGame = sampleGame\<lparr>centerPile := [\<lparr>card_id = ''a0'', card_type = Truth\<rparr>],
     lastPlayedCard := Some \<lparr>card_id = ''a0'', card_type = Truth\<rparr>\<rparr>"

text \<open>The sample session showing a revelation while it is Carol's turn.\<close>

definition revelationGame :: GameState where
  "revelationGame = sampleGame\<lparr>phase := Revelation, currentPlayerId := ''C''\<rparr>"

section \<open>Facts about the helpers\<close>

lemma findIndex_Some_iff:
  "findIndex P xs = Some i \<longleftrightarrow> i < length xs \<and> P (xs ! i) \<and> (\<forall>j<i. \<not> P (xs ! j))"
proof (induction xs arbitrary: i)
  case Nil
  show ?case by simp
next
  case (Cons x xs)
  show ?case
  proof (cases "P x")
    case True
    then show ?thesis by (cases i) auto
  next
    case False
    show ?thesis
    proof (cases i)
      case 0
      with False show ?thesis by auto
    next
      case (Suc k)
      with False Cons.IH [of k] show ?thesis
        by (auto simp: less_Suc_eq_0_disj)
    qed
  qed
qed

lemma findIndex_None_iff: "findIndex P xs = None \<longleftrightarrow> (\<forall>x\<in>set xs. \<not> P x)"
  by (induction xs) auto

lemma findIndex_member:
  "y \<in> set (map f xs) \<Longrightarrow> \<exists>i. findIndex (\<lambda>x. f x = y) xs = Some i"
  using findIndex_None_iff [of "\<lambda>x. f x = y" xs] by (cases "findIndex (\<lambda>x. f x = y) xs") auto

lemma findIndex_update:
  assumes "findIndex P xs = Some i" and "P y"
  shows "findIndex P (xs[i := y]) = Some i"
  using assms by (auto simp: findIndex_Some_iff nth_list_update)

lemma find_findIndex: "find P xs = map_option (nth xs) (findIndex P xs)"
  by (induction xs) (auto simp: option.map_comp comp_def)

lemma length_spliceOut: "i < length xs \<Longrightarrow> length (spliceOut i xs) = length xs - 1"
  by (simp add: spliceOut_def)

lemma sum_list_map_update:
  fixes f :: "'a \<Rightarrow> nat"
  assumes "i < length xs"
  shows "sum_list (map f (xs[i := y])) + f (xs ! i) = sum_list (map f xs) + f y"
proof -
  have "xs = take i xs @ (xs ! i) # drop (Suc i) xs"
    using assms by (simp add: id_take_nth_drop)
  moreover have "xs[i := y] = take i xs @ y # drop (Suc i) xs"
    using assms by (simp add: upd_conv_take_nth_drop)
  ultimately have "sum_list (map f (xs[i := y])) + f (xs ! i)
      = sum_list (map f (take i xs)) + f y + sum_list (map f (drop (Suc i) xs)) + f (xs ! i)"
    and "sum_list (map f xs) = sum_list (map f (take i xs)) + f (xs ! i) + sum_list (map f (drop (Suc i) xs))"
    by (simp, metis (no_types) add.assoc map_append list.simps(9) sum_list.Cons sum_list.append)
  then show ?thesis by simp
qed

lemma mset_shuffleFrom:
  "k < length deck \<Longrightarrow> (\<forall>i. 1 \<le> i \<and> i \<le> k \<longrightarrow> rnd i \<le> i) \<Longrightarrow> mset (shuffleFrom rnd k deck) = mset deck"
proof (induction k arbitrary: deck)
  case 0
  show ?case by simp
next
  case (Suc k)
  let ?swapped = "deck[Suc k := deck ! rnd (Suc k), rnd (Suc k) := deck ! Suc k]"
  have "rnd (Suc k) \<le> Suc k" using Suc.prems(2) by simp
  then have j: "rnd (Suc k) < length deck" using Suc.prems(1) by simp
  have "mset ?swapped = mset deck"
    using Suc.prems(1) j by (simp add: mset_swap)
  moreover have "mset (shuffleFrom rnd k ?swapped) = mset ?swapped"
    using Suc.prems by (intro Suc.IH) auto
  ultimately show ?case by (simp add: Let_def)
qed

lemma unshuffled_length:
  "length (map (\<lambda>i. \<lparr>card_id = uuid i, card_type = Truth\<rparr>) [0..<n]
         @ map (\<lambda>i. \<lparr>card_id = uuid (n + i), card_type = Lie\<rparr>) [0..<n]) = n + n"
  by simp

lemma unshuffled_truths:
  "filter (\<lambda>c. card_type c = Truth)
     (map (\<lambda>i. \<lparr>card_id = uuid i, card_type = Truth\<rparr>) [0..<n]
      @ map (\<lambda>i. \<lparr>card_id = uuid (n + i), card_type = Lie\<rparr>) [0..<n])
   = map (\<lambda>i. \<lparr>card_id = uuid i, card_type = Truth\<rparr>) [0..<n]"
  by (simp add: filter_map comp_def)

lemma unshuffled_lies:
  "filter (\<lambda>c. card_type c = Lie)
     (map (\<lambda>i. \<lparr>card_id = uuid i, card_type = Truth\<rparr>) [0..<n]
      @ map (\<lambda>i. \<lparr>card_id = uuid (n + i), card_type = Lie\<rparr>) [0..<n])
   = map (\<lambda>i. \<lparr>card_id = uuid (n + i), card_type = Lie\<rparr>) [0..<n]"
  by (simp add: filter_map comp_def)

lemma unshuffled_ids:
  "map card_id
     (map (\<lambda>i. \<lparr>card_id = uuid i, card_type = Truth\<rparr>) [0..<n]
      @ map (\<lambda>i. \<lparr>card_id = uuid (n + i), card_type = Lie\<rparr>) [0..<n])
   = map uuid [0..<n + n]"
proof -
  have "map (\<lambda>i. uuid (n + i)) [0..<n] = map uuid (map (\<lambda>i. i + n) [0..<n])"
    by (simp add: comp_def add.commute)
  also have "\<dots> = map uuid [n..<n + n]"
    by (simp only: map_add_upt)
  finally have "map (\<lambda>i. uuid (n + i)) [0..<n] = map uuid [n..<n + n]" .
  moreover have "[0..<n + n] = [0..<n] @ [n..<n + n]"
    using upt_add_eq_append [of 0 n n] by simp
  ultimately show ?thesis by (simp add: comp_def)
qed

lemma list_all_update:
  "list_all P xs \<Longrightarrow> P y \<Longrightarrow> list_all P (xs[i := y])"
  using set_update_subset_insert [of xs i y] by (auto simp: list_all_iff)

lemma list_all_spliceOut: "list_all P xs \<Longrightarrow> list_all P (spliceOut i xs)"
  by (auto simp: list_all_iff spliceOut_def dest: in_set_takeD in_set_dropD)

lemma length_createPenaltyCards: "length (createPenaltyCards uuid coin) = 10"
  by (simp add: createPenaltyCards_def)

section \<open>The deck\<close>

text \<open>
  Claim C8. Every deck returned by the deck generator has exactly 60 cards, 30 of kind
  Truth and 30 of kind Lie, and the 60 card identifiers are pairwise distinct. The
  identifiers come from \<^verbatim>\<open>randomUUID()\<close>, whose 60 values are taken to differ
  from each other, and every shuffle index is at most the loop index, as
  \<^verbatim>\<open>Math.floor(Math.random() * (i + 1))\<close> is.
\<close>

theorem createDeck_balanced:
  assumes uu: "inj_on uuid {..<60}"
    and rr: "\<forall>i. 1 \<le> i \<and> i < 60 \<longrightarrow> rnd i \<le> i"
  shows "length (createDeck uuid rnd) = 60
       \<and> length (filter (\<lambda>c. card_type c = Truth) (createDeck uuid rnd)) = 30
       \<and> length (filter (\<lambda>c. card_type c = Lie) (createDeck uuid rnd)) = 30
       \<and> distinct (map card_id (createDeck uuid rnd))"
proof -
  define base where "base = map (\<lambda>i. \<lparr>card_id = uuid i, card_type = Truth\<rparr>) [0..<30]
               @ map (\<lambda>i. \<lparr>card_id = uuid (30 + i), card_type = Lie\<rparr>) [0..<30]"
  have len: "length base = 60"
    unfolding base_def by (simp only: unshuffled_length)
  have tr: "length (filter (\<lambda>c. card_type c = Truth) base) = 30"
    unfolding base_def by (simp only: unshuffled_truths length_map length_upt)
  have li: "length (filter (\<lambda>c. card_type c = Lie) base) = 30"
    unfolding base_def by (simp only: unshuffled_lies length_map length_upt)
  have "map card_id base = map uuid [0..<30 + 30]"
    unfolding base_def by (rule unshuffled_ids)
  moreover have "distinct (map uuid [0..<60])"
    using uu by (simp only: distinct_map distinct_upt atLeast0LessThan set_upt)
  ultimately have di: "distinct (map card_id base)" by simp
  have cd: "createDeck uuid rnd = shuffleFrom rnd (length base - 1) base"
    unfolding base_def createDeck_def Let_def ..
  have mm: "mset (createDeck uuid rnd) = mset base"
    unfolding cd using rr len by (intro mset_shuffleFrom) auto
  have l: "length (createDeck uuid rnd) = length base"
    using mm by (rule mset_eq_length)
  have m: "mset (filter P (createDeck uuid rnd)) = mset (filter P base)" for P
    by (simp only: mset_filter mm)
  have d: "mset (map card_id (createDeck uuid rnd)) = mset (map card_id base)"
    by (simp only: mset_map mm)
  show ?thesis
    using mset_eq_length [OF m] mset_eq_imp_distinct_iff [OF d] l len tr li di by simp
qed

text \<open>The deck with the identifiers \<open>u\<close>, \<open>uu\<close>, ... and every shuffle index \<open>0\<close>.\<close>

theorem createDeck_balanced_witness:
  "inj_on (\<lambda>k. replicate k CHR ''u'') {..<60}
   \<and> length (createDeck (\<lambda>k. replicate k CHR ''u'') (\<lambda>i. 0)) = 60
   \<and> length (filter (\<lambda>c. card_type c = Truth) (createDeck (\<lambda>k. replicate k CHR ''u'') (\<lambda>i. 0))) = 30
   \<and> length (filter (\<lambda>c. card_type c = Lie) (createDeck (\<lambda>k. replicate k CHR ''u'') (\<lambda>i. 0))) = 30
   \<and> distinct (map card_id (createDeck (\<lambda>k. replicate k CHR ''u'') (\<lambda>i. 0)))"
proof -
  have a: "inj_on (\<lambda>k. replicate k CHR ''u'') {..<60}" by (simp add: inj_on_def)
  have b: "\<forall>i. 1 \<le> i \<and> i < 60 \<longrightarrow> (\<lambda>i. 0::nat) i \<le> i" by simp
  from a b createDeck_balanced [OF a b] show ?thesis by blast
qed

section \<open>Rejected requests\<close>

text \<open>
  Claim C3. When the player of the request is a member of the session but not the
  current player, playing a card fails with "Not your turn" and the session is left
  exactly as it was, every field included.
\<close>

theorem playCard_not_your_turn:
  assumes "pid \<in> set (map player_id (players game))" and "pid \<noteq> currentPlayerId game"
  shows "playCard eid now pid cid game = (Some NotYourTurn, game)"
proof -
  obtain i where "findIndex (\<lambda>p. player_id p = pid) (players game) = Some i"
    using findIndex_member [OF assms(1)] by blast
  with assms(2) show ?thesis by (simp add: playCard_def)
qed

text \<open>Alice asks to play in the sample session, where it is Bob's turn.\<close>

theorem playCard_not_your_turn_witness:
  "''A'' \<in> set (map player_id (players sampleGame)) \<and> ''A'' \<noteq> currentPlayerId sampleGame
   \<and> playCard ''e1'' 5 ''A'' ''a1'' sampleGame = (Some NotYourTurn, sampleGame)"
proof -
  have a: "''A'' \<in> set (map player_id (players sampleGame))"
    by (simp add: sampleGame_def alice_def)
  have b: "''A'' \<noteq> currentPlayerId sampleGame"
    by (simp add: sampleGame_def)
  from a b playCard_not_your_turn [OF a b] show ?thesis by blast
qed

text \<open>
  Claim C4. When the session has no last played card or no last player, an accusation
  fails with "No card to accuse" and the session is left exactly as it was.
\<close>

theorem accusePlayer_nothing_played:
  assumes "lastPlayedCard game = None \<or> lastPlayerId game = None"
  shows "accusePlayer uuid coin eid now accusingId accusedId game = (Some NoCardToAccuse, game)"
  using assms by (auto simp: accusePlayer_def split: option.splits)

text \<open>The sample session without its last played card.\<close>

theorem accusePlayer_nothing_played_witness:
  "(lastPlayedCard (sampleGame\<lparr>lastPlayedCard := None\<rparr>) = None
      \<or> lastPlayerId (sampleGame\<lparr>lastPlayedCard := None\<rparr>) = None)
   \<and> accusePlayer sampleUuid sampleCoin ''e1'' 5 ''B'' ''A'' (sampleGame\<lparr>lastPlayedCard := None\<rparr>)
       = (Some NoCardToAccuse, sampleGame\<lparr>lastPlayedCard := None\<rparr>)"
proof -
  have a: "lastPlayedCard (sampleGame\<lparr>lastPlayedCard := None\<rparr>) = None
      \<or> lastPlayerId (sampleGame\<lparr>lastPlayedCard := None\<rparr>) = None" by simp
  from a accusePlayer_nothing_played [OF a] show ?thesis by blast
qed

section \<open>What a successful request does\<close>

text \<open>
  When a handler succeeds, the checks it has passed and the fields it has written.
\<close>

lemma playCard_success:
  assumes "fst (playCard eid now pid cid game) = None"
  obtains pidx cardIndex where
    "findIndex (\<lambda>p. player_id p = pid) (players game) = Some pidx"
    "currentPlayerId game = pid"
    "findIndex (\<lambda>c. card_id c = cid) (cards (players game ! pidx)) = Some cardIndex"
  using assms
  by (auto simp: playCard_def Let_def split: option.splits if_splits)

lemma playCard_fields:
  fixes eid :: string and now :: nat
  assumes p: "findIndex (\<lambda>p. player_id p = pid) (players game) = Some pidx"
    and cur: "currentPlayerId game = pid"
    and c: "findIndex (\<lambda>c. card_id c = cid) (cards (players game ! pidx)) = Some cardIndex"
  defines "hand \<equiv> spliceOut cardIndex (cards (players game ! pidx))"
    and "game1 \<equiv> snd (playCard eid now pid cid game)"
  shows "fst (playCard eid now pid cid game) = None"
    and "players game1
           = (players game)[pidx := (players game ! pidx)\<lparr>cards := hand, cardCount := length hand\<rparr>]"
    and "centerPile game1 = centerPile game @ [cards (players game ! pidx) ! cardIndex]"
    and "lastPlayedCard game1 = Some (cards (players game ! pidx) ! cardIndex)"
    and "lastPlayerId game1 = Some pid"
    and "phase game1 = (if hand = [] then Finished else phase game)"
    and "currentPlayerId game1
           = (if hand = [] then currentPlayerId game
              else player_id (players game1 ! ((pidx + 1) mod length (players game))))"
    and "butlast (events game1) = events game"
proof -
  from p have pp: "player_id (players game ! pidx) = pid"
    by (simp add: findIndex_Some_iff)
  have p1: "findIndex (\<lambda>p. player_id p = pid)
      ((players game)[pidx := (players game ! pidx)\<lparr>cards := hand, cardCount := length hand\<rparr>])
      = Some pidx"
    using p pp by (intro findIndex_update) simp_all
  show "fst (playCard eid now pid cid game) = None"
    using p cur c by (simp add: playCard_def Let_def)
  show "players game1
           = (players game)[pidx := (players game ! pidx)\<lparr>cards := hand, cardCount := length hand\<rparr>]"
    unfolding game1_def hand_def using p cur c by (simp add: playCard_def Let_def)
  show "centerPile game1 = centerPile game @ [cards (players game ! pidx) ! cardIndex]"
    unfolding game1_def using p cur c by (simp add: playCard_def Let_def)
  show "lastPlayedCard game1 = Some (cards (players game ! pidx) ! cardIndex)"
    unfolding game1_def using p cur c by (simp add: playCard_def Let_def)
  show "lastPlayerId game1 = Some pid"
    unfolding game1_def using p cur c by (simp add: playCard_def Let_def)
  show "phase game1 = (if hand = [] then Finished else phase game)"
    unfolding game1_def hand_def using p cur c by (simp add: playCard_def Let_def)
  show "currentPlayerId game1
           = (if hand = [] then currentPlayerId game
              else player_id (players game1 ! ((pidx + 1) mod length (players game))))"
    unfolding game1_def using p cur c p1 [unfolded hand_def]
    by (simp add: playCard_def Let_def flip: hand_def)
  show "butlast (events game1) = events game"
    unfolding game1_def using p cur c by (simp add: playCard_def Let_def)
qed

lemma accusePlayer_success:
  assumes "fst (accusePlayer uuid coin eid now accusingId accusedId game) = None"
  obtains lastCard lastId accusingIndex accusedIndex where
    "lastPlayedCard game = Some lastCard"
    "lastPlayerId game = Some lastId" "lastId \<noteq> []"
    "findIndex (\<lambda>p. player_id p = accusingId) (players game) = Some accusingIndex"
    "findIndex (\<lambda>p. player_id p = accusedId) (players game) = Some accusedIndex"
  using assms
  by (auto simp: accusePlayer_def Let_def split: option.splits if_splits)

lemma accusePlayer_fields:
  fixes uuid :: "nat \<Rightarrow> string" and coin :: "nat \<Rightarrow> bool" and eid :: string and now :: nat
  assumes c: "lastPlayedCard game = Some lastCard"
    and l: "lastPlayerId game = Some lastId" "lastId \<noteq> []"
    and a: "findIndex (\<lambda>p. player_id p = accusingId) (players game) = Some accusingIndex"
    and d: "findIndex (\<lambda>p. player_id p = accusedId) (players game) = Some accusedIndex"
  defines "k \<equiv> (if card_type lastCard = Lie then accusedIndex else accusingIndex)"
    and "game1 \<equiv> snd (accusePlayer uuid coin eid now accusingId accusedId game)"
  defines "hand \<equiv> cards (players game ! k) @ take 3 (createPenaltyCards uuid coin)"
  shows "fst (accusePlayer uuid coin eid now accusingId accusedId game) = None"
    and "players game1
           = (players game)[k := (players game ! k)\<lparr>cards := hand, cardCount := length hand\<rparr>]"
    and "centerPile game1 = centerPile game"
    and "phase game1 = Revelation"
    and "k < length (players game)"
proof -
  show "fst (accusePlayer uuid coin eid now accusingId accusedId game) = None"
    using c l a d by (simp add: accusePlayer_def Let_def)
  show "players game1
           = (players game)[k := (players game ! k)\<lparr>cards := hand, cardCount := length hand\<rparr>]"
    unfolding game1_def hand_def k_def using c l a d by (simp add: accusePlayer_def Let_def)
  show "centerPile game1 = centerPile game"
    unfolding game1_def using c l a d by (simp add: accusePlayer_def Let_def)
  show "phase game1 = Revelation"
    unfolding game1_def using c l a d by (simp add: accusePlayer_def Let_def)
  show "k < length (players game)"
    unfolding k_def using a d by (simp add: findIndex_Some_iff)
qed

text \<open>The whole session a successful play leaves, whatever the phase before it.\<close>

lemma playCard_run:
  fixes eid :: string and now :: nat
  assumes p: "findIndex (\<lambda>p. player_id p = pid) (players game) = Some pidx"
    and cur: "currentPlayerId game = pid"
    and c: "findIndex (\<lambda>c. card_id c = cid) (cards (players game ! pidx)) = Some cardIndex"
  defines "player \<equiv> players game ! pidx"
  defines "hand \<equiv> spliceOut cardIndex (cards player)"
  defines "moved \<equiv> game\<lparr>players := (players game)
                            [pidx := player\<lparr>cards := hand, cardCount := length hand\<rparr>],
                         centerPile := centerPile game @ [cards player ! cardIndex],
                         lastPlayedCard := Some (cards player ! cardIndex),
                         lastPlayerId := Some pid\<rparr>"
  shows "playCard eid now pid cid game
      = (None,
         if hand = [] then
           moved\<lparr>phase := Finished,
                 events := events game @
                   [\<lparr>event_id = eid, event_type = EvCardPlayed,
                     playerId = pid, playerName = name player,
                     targetId = None, targetName = None, cardType = None,
                     timestamp = now,
                     message = name player @ '' a gagn'' @ e_acute @ '' la partie !''\<rparr>]\<rparr>
         else
           moved\<lparr>currentPlayerId :=
                   player_id (players moved ! ((pidx + 1) mod length (players game))),
                 events := events game @
                   [\<lparr>event_id = eid, event_type = EvCardPlayed,
                     playerId = pid, playerName = name player,
                     targetId = None, targetName = None, cardType = None,
                     timestamp = now,
                     message = name player @ '' a jou'' @ e_acute @ '' une carte''\<rparr>]\<rparr>)"
proof -
  from p have pp: "player_id (players game ! pidx) = pid"
    by (simp add: findIndex_Some_iff)
  have p1: "findIndex (\<lambda>p. player_id p = pid)
      ((players game)[pidx := (players game ! pidx)
         \<lparr>cards := spliceOut cardIndex (cards (players game ! pidx)),
          cardCount := length (spliceOut cardIndex (cards (players game ! pidx)))\<rparr>])
      = Some pidx"
    using p pp by (intro findIndex_update) simp_all
  show ?thesis
    unfolding moved_def hand_def player_def
    using p cur c p1 pp by (simp add: playCard_def Let_def)
qed

section \<open>Playing a card\<close>

text \<open>
  Claim C5. Whenever playing a card succeeds, the card (the first one of the player's
  hand with the identifier of the request) is removed from the hand of that player (the
  first member with the identifier of the request) and appended to the centre pile, and
  the last played card and the last player are set to it and to the player. If the hand
  is then empty the phase becomes Finished and the current player stays; otherwise the
  current player becomes the member at the next index of the members, circularly.
\<close>

theorem playCard_effect:
  assumes ok: "fst (playCard eid now pid cid game) = None"
  shows "\<exists>pidx cardIndex.
      findIndex (\<lambda>p. player_id p = pid) (players game) = Some pidx
    \<and> findIndex (\<lambda>c. card_id c = cid) (cards (players game ! pidx)) = Some cardIndex
    \<and> (let game1 = snd (playCard eid now pid cid game);
            hand = cards (players game ! pidx);
            card = hand ! cardIndex
        in player_id (players game ! pidx) = pid
         \<and> card_id card = cid
         \<and> map player_id (players game1) = map player_id (players game)
         \<and> cards (players game1 ! pidx) = take cardIndex hand @ drop (Suc cardIndex) hand
         \<and> centerPile game1 = centerPile game @ [card]
         \<and> lastPlayedCard game1 = Some card
         \<and> lastPlayerId game1 = Some pid
         \<and> (if cards (players game1 ! pidx) = []
             then phase game1 = Finished \<and> currentPlayerId game1 = currentPlayerId game
             else currentPlayerId game1
                    = player_id (players game1 ! ((pidx + 1) mod length (players game1)))))"
proof -
  from ok obtain pidx cardIndex where
    p: "findIndex (\<lambda>p. player_id p = pid) (players game) = Some pidx"
    and cur: "currentPlayerId game = pid"
    and c: "findIndex (\<lambda>c. card_id c = cid) (cards (players game ! pidx)) = Some cardIndex"
    by (rule playCard_success)
  note f = playCard_fields [OF p cur c, of eid now]
  from p have lt: "pidx < length (players game)" and pp: "player_id (players game ! pidx) = pid"
    by (simp_all add: findIndex_Some_iff)
  let ?game1 = "snd (playCard eid now pid cid game)"
  let ?hand = "cards (players game ! pidx)"
  have ids: "map player_id (players ?game1) = map player_id (players game)"
    using lt pp by (simp add: f(2) map_update list_update_same_conv)
  have len: "length (players ?game1) = length (players game)"
    by (simp add: f(2))
  have hand: "cards (players ?game1 ! pidx) = take cardIndex ?hand @ drop (Suc cardIndex) ?hand"
    using lt by (simp add: f(2) spliceOut_def)
  have sp: "spliceOut cardIndex ?hand = cards (players ?game1 ! pidx)"
    using hand by (simp add: spliceOut_def)
  have turn: "if cards (players ?game1 ! pidx) = []
             then phase ?game1 = Finished \<and> currentPlayerId ?game1 = currentPlayerId game
             else currentPlayerId ?game1
                    = player_id (players ?game1 ! ((pidx + 1) mod length (players ?game1)))"
    using f(6) f(7) unfolding sp len by simp
  from c have cc: "card_id (?hand ! cardIndex) = cid"
    by (simp add: findIndex_Some_iff)
  from p c pp cc ids hand f(3) f(4) f(5) turn show ?thesis
    unfolding Let_def by blast
qed

text \<open>Carol plays the first of her two cards; the turn goes round to Alice.\<close>

theorem playCard_effect_witness:
  "fst (playCard ''e1'' 5 ''C'' ''c1'' (sampleGame\<lparr>currentPlayerId := ''C''\<rparr>)) = None
   \<and> (\<exists>pidx cardIndex.
      findIndex (\<lambda>p. player_id p = ''C'') (players (sampleGame\<lparr>currentPlayerId := ''C''\<rparr>)) = Some pidx
    \<and> findIndex (\<lambda>c. card_id c = ''c1'') (cards (players (sampleGame\<lparr>currentPlayerId := ''C''\<rparr>) ! pidx)) = Some cardIndex
    \<and> (let game1 = snd (playCard ''e1'' 5 ''C'' ''c1'' (sampleGame\<lparr>currentPlayerId := ''C''\<rparr>));
            hand = cards (players (sampleGame\<lparr>currentPlayerId := ''C''\<rparr>) ! pidx);
            card = hand ! cardIndex
        in player_id (players (sampleGame\<lparr>currentPlayerId := ''C''\<rparr>) ! pidx) = ''C''
         \<and> card_id card = ''c1''
         \<and> map player_id (players game1) = map player_id (players (sampleGame\<lparr>currentPlayerId := ''C''\<rparr>))
         \<and> cards (players game1 ! pidx) = take cardIndex hand @ drop (Suc cardIndex) hand
         \<and> centerPile game1 = centerPile (sampleGame\<lparr>currentPlayerId := ''C''\<rparr>) @ [card]
         \<and> lastPlayedCard game1 = Some card
         \<and> lastPlayerId game1 = Some ''C''
         \<and> (if cards (players game1 ! pidx) = []
             then phase game1 = Finished \<and> currentPlayerId game1 = currentPlayerId (sampleGame\<lparr>currentPlayerId := ''C''\<rparr>)
             else currentPlayerId game1
                    = player_id (players game1 ! ((pidx + 1) mod length (players game1))))))"
proof -
  have a: "fst (playCard ''e1'' 5 ''C'' ''c1'' (sampleGame\<lparr>currentPlayerId := ''C''\<rparr>)) = None"
    by (simp add: playCard_def sampleGame_def alice_def bob_def carol_def Let_def spliceOut_def)
  from a playCard_effect [OF a] show ?thesis by (rule conjI)
qed

text \<open>
  Claim C10. Playing a card has no condition on the phase. In any phase, when the
  player of the request is the current player and the card is in the hand of that
  member, the request succeeds and changes the session as it does during Playing: the
  card leaves the hand (and the stored hand size follows), joins the centre pile and
  becomes the last played card, the player becomes the last player, and one card-played
  event is appended; an emptied hand sets the phase to Finished and keeps the current
  player, otherwise the phase stays what it was and the turn passes to the next member.
  Every other field is kept. The session left is the one left from the phase Playing,
  the phase apart.
\<close>

theorem playCard_any_phase:
  assumes m: "getPlayerById game pid = Some player"
    and cur: "currentPlayerId game = pid"
    and h: "cid \<in> set (map card_id (cards player))"
  shows "let pidx = the (findIndex (\<lambda>p. player_id p = pid) (players game));
             cardIndex = the (findIndex (\<lambda>c. card_id c = cid) (cards player));
             hand = spliceOut cardIndex (cards player);
             card = cards player ! cardIndex;
             moved = game\<lparr>players := (players game)
                             [pidx := player\<lparr>cards := hand, cardCount := length hand\<rparr>],
                          centerPile := centerPile game @ [card],
                          lastPlayedCard := Some card,
                          lastPlayerId := Some pid\<rparr>
         in fst (playCard eid now pid cid game) = None
          \<and> players game ! pidx = player
          \<and> card_id card = cid
          \<and> phase (snd (playCard eid now pid cid game))
               = (if hand = [] then Finished else phase game)
          \<and> snd (playCard eid now pid cid game)
               = (if hand = [] then
                    moved\<lparr>phase := Finished,
                          events := events game @
                            [\<lparr>event_id = eid, event_type = EvCardPlayed,
                              playerId = pid, playerName = name player,
                              targetId = None, targetName = None, cardType = None,
                              timestamp = now,
                              message = name player @ '' a gagn'' @ e_acute @ '' la partie !''\<rparr>]\<rparr>
                  else
                    moved\<lparr>currentPlayerId :=
                            player_id (players moved ! ((pidx + 1) mod length (players game))),
                          events := events game @
                            [\<lparr>event_id = eid, event_type = EvCardPlayed,
                              playerId = pid, playerName = name player,
                              targetId = None, targetName = None, cardType = None,
                              timestamp = now,
                              message = name player @ '' a jou'' @ e_acute @ '' une carte''\<rparr>]\<rparr>)
          \<and> snd (playCard eid now pid cid game)
               = (let played = snd (playCard eid now pid cid (game\<lparr>phase := Playing\<rparr>))
                  in if phase played = Finished then played
                     else played\<lparr>phase := phase game\<rparr>)"
proof -
  from m obtain pidx where
    p: "findIndex (\<lambda>p. player_id p = pid) (players game) = Some pidx"
    and pl: "players game ! pidx = player"
    by (auto simp: getPlayerById_def find_findIndex)
  from h obtain cardIndex where
    c: "findIndex (\<lambda>c. card_id c = cid) (cards player) = Some cardIndex"
    by (blast dest: findIndex_member)
  have c': "findIndex (\<lambda>c. card_id c = cid) (cards (players game ! pidx)) = Some cardIndex"
    using c pl by simp
  from c have cc: "card_id (cards player ! cardIndex) = cid"
    by (simp add: findIndex_Some_iff)
  note here = playCard_run [OF p cur c', of eid now]
  have "findIndex (\<lambda>p. player_id p = pid) (players (game\<lparr>phase := Playing\<rparr>)) = Some pidx"
    and "currentPlayerId (game\<lparr>phase := Playing\<rparr>) = pid"
    and "findIndex (\<lambda>c. card_id c = cid) (cards (players (game\<lparr>phase := Playing\<rparr>) ! pidx))
           = Some cardIndex"
    using p cur c' by simp_all
  note there = playCard_run [OF this, of eid now, simplified]
  show ?thesis
    unfolding Let_def p c option.sel
    using cc by (intro conjI) (simp_all add: here there pl)
qed

text \<open>
  Carol plays the first of her two cards during a revelation: the phase stays
  Revelation and the turn passes to Alice. Bob plays his only card while the session is
  Waiting: the phase becomes Finished and the turn stays with Bob.
\<close>

theorem playCard_any_phase_witness:
  "getPlayerById revelationGame ''C'' = Some carol
   \<and> currentPlayerId revelationGame = ''C''
   \<and> ''c1'' \<in> set (map card_id (cards carol))
   \<and> fst (playCard ''e1'' 5 ''C'' ''c1'' revelationGame) = None
   \<and> phase (snd (playCard ''e1'' 5 ''C'' ''c1'' revelationGame)) = Revelation
   \<and> currentPlayerId (snd (playCard ''e1'' 5 ''C'' ''c1'' revelationGame)) = ''A''
   \<and> centerPile (snd (playCard ''e1'' 5 ''C'' ''c1'' revelationGame))
       = centerPile revelationGame @ [\<lparr>card_id = ''c1'', card_type = Lie\<rparr>]
   \<and> getPlayerById (sampleGame\<lparr>phase := Waiting\<rparr>) ''B'' = Some bob
   \<and> currentPlayerId (sampleGame\<lparr>phase := Waiting\<rparr>) = ''B''
   \<and> ''b1'' \<in> set (map card_id (cards bob))
   \<and> fst (playCard ''e1'' 5 ''B'' ''b1'' (sampleGame\<lparr>phase := Waiting\<rparr>)) = None
   \<and> phase (snd (playCard ''e1'' 5 ''B'' ''b1'' (sampleGame\<lparr>phase := Waiting\<rparr>))) = Finished
   \<and> currentPlayerId (snd (playCard ''e1'' 5 ''B'' ''b1'' (sampleGame\<lparr>phase := Waiting\<rparr>))) = ''B''
   \<and> lastPlayedCard (snd (playCard ''e1'' 5 ''B'' ''b1'' (sampleGame\<lparr>phase := Waiting\<rparr>)))
       = Some \<lparr>card_id = ''b1'', card_type = Truth\<rparr>"
proof -
  have a: "getPlayerById revelationGame ''C'' = Some carol"
    by (simp add: getPlayerById_def revelationGame_def sampleGame_def alice_def bob_def carol_def)
  have b: "currentPlayerId revelationGame = ''C''"
    by (simp add: revelationGame_def)
  have c: "''c1'' \<in> set (map card_id (cards carol))"
    by (simp add: carol_def)
  note t = playCard_any_phase [OF a b c, of "''e1''" 5, unfolded Let_def]
  note ok = t [THEN conjunct1]
  note ph = t [THEN conjunct2, THEN conjunct2, THEN conjunct2, THEN conjunct1]
  note full = t [THEN conjunct2, THEN conjunct2, THEN conjunct2, THEN conjunct2, THEN conjunct1]
  have i: "the (findIndex (\<lambda>p. player_id p = ''C'') (players revelationGame)) = 2"
    by (simp add: revelationGame_def sampleGame_def alice_def bob_def carol_def)
  have ci: "the (findIndex (\<lambda>c. card_id c = ''c1'') (cards carol)) = 0"
    by (simp add: carol_def)
  have sp: "spliceOut 0 (cards carol) = [\<lparr>card_id = ''c2'', card_type = Truth\<rparr>]"
    by (simp add: spliceOut_def carol_def)
  have r1: "phase (snd (playCard ''e1'' 5 ''C'' ''c1'' revelationGame)) = Revelation"
    unfolding ph ci sp by (simp add: revelationGame_def)
  have r2: "currentPlayerId (snd (playCard ''e1'' 5 ''C'' ''c1'' revelationGame)) = ''A''"
    unfolding full i ci sp by (simp add: revelationGame_def sampleGame_def alice_def)
  have r3: "centerPile (snd (playCard ''e1'' 5 ''C'' ''c1'' revelationGame))
       = centerPile revelationGame @ [\<lparr>card_id = ''c1'', card_type = Lie\<rparr>]"
    unfolding full i ci sp by (simp add: carol_def)
  have a': "getPlayerById (sampleGame\<lparr>phase := Waiting\<rparr>) ''B'' = Some bob"
    by (simp add: getPlayerById_def sampleGame_def alice_def bob_def)
  have b': "currentPlayerId (sampleGame\<lparr>phase := Waiting\<rparr>) = ''B''"
    by (simp add: sampleGame_def)
  have c': "''b1'' \<in> set (map card_id (cards bob))"
    by (simp add: bob_def)
  note t' = playCard_any_phase [OF a' b' c', of "''e1''" 5, unfolded Let_def]
  note ok' = t' [THEN conjunct1]
  note ph' = t' [THEN conjunct2, THEN conjunct2, THEN conjunct2, THEN conjunct1]
  note full' = t' [THEN conjunct2, THEN conjunct2, THEN conjunct2, THEN conjunct2, THEN conjunct1]
  have ci': "the (findIndex (\<lambda>c. card_id c = ''b1'') (cards bob)) = 0"
    by (simp add: bob_def)
  have sp': "spliceOut 0 (cards bob) = []"
    by (simp add: spliceOut_def bob_def)
  have r1': "phase (snd (playCard ''e1'' 5 ''B'' ''b1'' (sampleGame\<lparr>phase := Waiting\<rparr>))) = Finished"
    unfolding ph' ci' sp' by simp
  have r2': "currentPlayerId (snd (playCard ''e1'' 5 ''B'' ''b1'' (sampleGame\<lparr>phase := Waiting\<rparr>))) = ''B''"
    unfolding full' ci' sp' by (simp add: sampleGame_def)
  have r3': "lastPlayedCard (snd (playCard ''e1'' 5 ''B'' ''b1'' (sampleGame\<lparr>phase := Waiting\<rparr>)))
       = Some \<lparr>card_id = ''b1'', card_type = Truth\<rparr>"
    unfolding full' ci' sp' by (simp add: bob_def)
  show ?thesis
    by (intro conjI a b c ok r1 r2 r3 a' b' c' ok' r1' r2' r3')
qed

section \<open>The number of cards\<close>

lemma totalCards_playCard:
  assumes ok: "fst (playCard eid now pid cid game) = None"
  shows "totalCards (snd (playCard eid now pid cid game)) = totalCards game"
proof -
  from ok obtain pidx cardIndex where
    p: "findIndex (\<lambda>p. player_id p = pid) (players game) = Some pidx"
    and cur: "currentPlayerId game = pid"
    and c: "findIndex (\<lambda>c. card_id c = cid) (cards (players game ! pidx)) = Some cardIndex"
    by (rule playCard_success)
  note f = playCard_fields [OF p cur c, of eid now]
  from p have lt: "pidx < length (players game)" by (simp add: findIndex_Some_iff)
  from c have ci: "cardIndex < length (cards (players game ! pidx))"
    by (simp add: findIndex_Some_iff)
  let ?f = "\<lambda>p. length (cards p)"
  let ?hand = "spliceOut cardIndex (cards (players game ! pidx))"
  have "sum_list (map ?f (players (snd (playCard eid now pid cid game)))) + ?f (players game ! pidx)
      = sum_list (map ?f (players game)) + length ?hand"
    using sum_list_map_update [OF lt, of ?f] by (simp add: f(2))
  moreover have "Suc (length ?hand) = ?f (players game ! pidx)"
    using ci by (simp add: length_spliceOut)
  ultimately show ?thesis
    by (simp add: totalCards_def f(3))
qed

lemma totalCards_accusePlayer:
  assumes ok: "fst (accusePlayer uuid coin eid now accusingId accusedId game) = None"
  shows "totalCards (snd (accusePlayer uuid coin eid now accusingId accusedId game))
           = totalCards game + 3"
proof -
  from ok obtain lastCard lastId accusingIndex accusedIndex where
    c: "lastPlayedCard game = Some lastCard"
    and l: "lastPlayerId game = Some lastId" "lastId \<noteq> []"
    and a: "findIndex (\<lambda>p. player_id p = accusingId) (players game) = Some accusingIndex"
    and d: "findIndex (\<lambda>p. player_id p = accusedId) (players game) = Some accusedIndex"
    by (rule accusePlayer_success)
  note f = accusePlayer_fields [OF c l a d]
  let ?f = "\<lambda>p. length (cards p)"
  let ?k = "if card_type lastCard = Lie then accusedIndex else accusingIndex"
  have "sum_list (map ?f (players (snd (accusePlayer uuid coin eid now accusingId accusedId game))))
          + ?f (players game ! ?k)
      = sum_list (map ?f (players game)) + (?f (players game ! ?k) + 3)"
    using sum_list_map_update [OF f(5), of ?f]
    by (simp add: f(2) length_createPenaltyCards del: take_Suc_Cons)
  then show ?thesis
    by (simp add: totalCards_def f(3))
qed

text \<open>
  Claim C6. A successful play leaves the number of cards of the session (the hands and
  the centre pile) as it was, and a successful accusation adds exactly 3 to it.
\<close>

theorem card_count_conservation:
  "(fst (playCard eid now pid cid game) = None
      \<longrightarrow> totalCards (snd (playCard eid now pid cid game)) = totalCards game)
   \<and> (fst (accusePlayer uuid coin eid2 now2 accusingId accusedId game) = None
      \<longrightarrow> totalCards (snd (accusePlayer uuid coin eid2 now2 accusingId accusedId game))
            = totalCards game + 3)"
  by (simp add: totalCards_playCard totalCards_accusePlayer)

text \<open>In the sample session Bob plays his card, or accuses Alice.\<close>

theorem card_count_conservation_witness:
  "fst (playCard ''e1'' 5 ''B'' ''b1'' sampleGame) = None
   \<and> totalCards (snd (playCard ''e1'' 5 ''B'' ''b1'' sampleGame)) = totalCards sampleGame
   \<and> fst (accusePlayer sampleUuid sampleCoin ''e2'' 6 ''B'' ''A'' sampleGame) = None
   \<and> totalCards (snd (accusePlayer sampleUuid sampleCoin ''e2'' 6 ''B'' ''A'' sampleGame))
        = totalCards sampleGame + 3"
proof -
  have a: "fst (playCard ''e1'' 5 ''B'' ''b1'' sampleGame) = None"
    by (simp add: playCard_def sampleGame_def alice_def bob_def carol_def Let_def spliceOut_def)
  have b: "fst (accusePlayer sampleUuid sampleCoin ''e2'' 6 ''B'' ''A'' sampleGame) = None"
    by (simp add: accusePlayer_def sampleGame_def alice_def bob_def carol_def Let_def)
  from a b card_count_conservation [of "''e1''" 5 "''B''" "''b1''" sampleGame
      sampleUuid sampleCoin "''e2''" 6 "''B''" "''A''"]
  show ?thesis by blast
qed

section \<open>Joining\<close>

text \<open>
  Claim C7. When a member joins a session that is Waiting and has room, and the members
  are then at least the minimum, the phase becomes Playing and the events gain exactly
  two entries: the join and one game start, not two.
\<close>

theorem addPlayer_starts_once:
  assumes w: "phase game = Waiting"
    and room: "length (players game) < maxPlayers game"
    and enough: "minPlayers game \<le> Suc (length (players game))"
  shows "fst (addPlayerToGame uuid rnd eid now eid2 now2 player game) = None
       \<and> phase (snd (addPlayerToGame uuid rnd eid now eid2 now2 player game)) = Playing
       \<and> take (length (events game))
            (events (snd (addPlayerToGame uuid rnd eid now eid2 now2 player game))) = events game
       \<and> map event_type (drop (length (events game))
            (events (snd (addPlayerToGame uuid rnd eid now eid2 now2 player game))))
          = [EvJoin, EvGameStart]"
  using assms by (simp add: addPlayerToGame_def Let_def)

text \<open>Bob joins Alice.\<close>

theorem addPlayer_starts_once_witness:
  "phase waitingGame = Waiting
   \<and> length (players waitingGame) < maxPlayers waitingGame
   \<and> minPlayers waitingGame \<le> Suc (length (players waitingGame))
   \<and> fst (addPlayerToGame sampleUuid (\<lambda>i. 0) ''e1'' 5 ''e2'' 6 bob waitingGame) = None
   \<and> phase (snd (addPlayerToGame sampleUuid (\<lambda>i. 0) ''e1'' 5 ''e2'' 6 bob waitingGame)) = Playing
   \<and> take (length (events waitingGame))
        (events (snd (addPlayerToGame sampleUuid (\<lambda>i. 0) ''e1'' 5 ''e2'' 6 bob waitingGame)))
      = events waitingGame
   \<and> map event_type (drop (length (events waitingGame))
        (events (snd (addPlayerToGame sampleUuid (\<lambda>i. 0) ''e1'' 5 ''e2'' 6 bob waitingGame))))
      = [EvJoin, EvGameStart]"
proof -
  have a: "phase waitingGame = Waiting" by (simp add: waitingGame_def)
  have b: "length (players waitingGame) < maxPlayers waitingGame"
    by (simp add: waitingGame_def sampleGame_def)
  have c: "minPlayers waitingGame \<le> Suc (length (players waitingGame))"
    by (simp add: waitingGame_def sampleGame_def)
  from a b c addPlayer_starts_once [OF a b c] show ?thesis by blast
qed

section \<open>The stored hand size\<close>

lemma countsInSync_createGame: "countsInSync (createGame gameId uuid rnd eid now hostPlayer)"
  by (simp add: countsInSync_def createGame_def Let_def)

lemma countsInSync_playCard:
  assumes "countsInSync game"
  shows "countsInSync (snd (playCard eid now pid cid game))"
proof (cases "fst (playCard eid now pid cid game)")
  case None
  then obtain pidx cardIndex where
    p: "findIndex (\<lambda>p. player_id p = pid) (players game) = Some pidx"
    and cur: "currentPlayerId game = pid"
    and c: "findIndex (\<lambda>c. card_id c = cid) (cards (players game ! pidx)) = Some cardIndex"
    by (rule playCard_success)
  show ?thesis
    using assms unfolding countsInSync_def playCard_fields(2) [OF p cur c]
    by (intro list_all_update) simp_all
next
  case (Some e)
  then have "snd (playCard eid now pid cid game) = game"
    by (auto simp: playCard_def Let_def split: option.splits if_splits)
  with assms show ?thesis by simp
qed

lemma countsInSync_accusePlayer:
  assumes "countsInSync game"
  shows "countsInSync (snd (accusePlayer uuid coin eid now accusingId accusedId game))"
proof (cases "fst (accusePlayer uuid coin eid now accusingId accusedId game)")
  case None
  then obtain lastCard lastId accusingIndex accusedIndex where
    c: "lastPlayedCard game = Some lastCard"
    and l: "lastPlayerId game = Some lastId" "lastId \<noteq> []"
    and a: "findIndex (\<lambda>p. player_id p = accusingId) (players game) = Some accusingIndex"
    and d: "findIndex (\<lambda>p. player_id p = accusedId) (players game) = Some accusedIndex"
    by (rule accusePlayer_success)
  show ?thesis
    using assms unfolding countsInSync_def accusePlayer_fields(2) [OF c l a d]
    by (intro list_all_update) simp_all
next
  case (Some e)
  then have "snd (accusePlayer uuid coin eid now accusingId accusedId game) = game"
    by (auto simp: accusePlayer_def Let_def split: option.splits if_splits)
  with assms show ?thesis by simp
qed

lemma countsInSync_addPlayerToGame:
  assumes "countsInSync game"
  shows "countsInSync (snd (addPlayerToGame uuid rnd eid now eid2 now2 player game))"
  using assms by (simp add: countsInSync_def addPlayerToGame_def Let_def)

lemma countsInSync_removePlayerFromGame:
  assumes "countsInSync game"
  shows "countsInSync (snd (removePlayerFromGame eid now pid game))"
  using assms list_all_spliceOut [of "\<lambda>p. cardCount p = length (cards p)" "players game"]
  by (simp add: countsInSync_def removePlayerFromGame_def Let_def split: option.splits)

lemma countsInSync_perform:
  "countsInSync game \<Longrightarrow> countsInSync (snd (perform c game))"
  by (cases c)
    (simp_all add: countsInSync_playCard countsInSync_accusePlayer countsInSync_addPlayerToGame
      countsInSync_removePlayerFromGame, simp add: countsInSync_def continueAfterRevelation_def)

text \<open>
  Claim C9. The stored hand size of every member equals the length of the hand in a
  session just created, every operation preserves that, and so it holds in every
  session the server can hold, after any sequence of creating, joining, leaving,
  playing and accusing.
\<close>

theorem stored_hand_size_in_sync:
  "countsInSync (createGame gameId uuid rnd eid now hostPlayer)
   \<and> (countsInSync game \<longrightarrow> countsInSync (snd (perform c game)))
   \<and> (reachable game \<longrightarrow> countsInSync game)"
proof -
  have "countsInSync g" if "reachable g" for g
    using that
  proof (induction rule: reachable.induct)
    case (created gameId uuid rnd eid now hostPlayer)
    show ?case by (rule countsInSync_createGame)
  next
    case (performed game c)
    then show ?case by (intro countsInSync_perform)
  qed
  then show ?thesis
    by (simp add: countsInSync_createGame countsInSync_perform)
qed

text \<open>Alice creates a session and Bob joins it.\<close>

theorem stored_hand_size_in_sync_witness:
  "countsInSync sampleGame
   \<and> countsInSync (snd (perform (PlayCard ''e1'' 5 ''B'' ''b1'') sampleGame))
   \<and> reachable (snd (perform (AddPlayer sampleUuid (\<lambda>i. 0) ''e1'' 5 ''e2'' 6 bob)
        (createGame ''ABC123'' sampleUuid (\<lambda>i. 0) ''e0'' 4 alice)))
   \<and> countsInSync (snd (perform (AddPlayer sampleUuid (\<lambda>i. 0) ''e1'' 5 ''e2'' 6 bob)
        (createGame ''ABC123'' sampleUuid (\<lambda>i. 0) ''e0'' 4 alice)))"
proof -
  have a: "countsInSync sampleGame"
    by (simp add: countsInSync_def sampleGame_def alice_def bob_def carol_def)
  have b: "reachable (snd (perform (AddPlayer sampleUuid (\<lambda>i. 0) ''e1'' 5 ''e2'' 6 bob)
        (createGame ''ABC123'' sampleUuid (\<lambda>i. 0) ''e0'' 4 alice)))"
    by (intro reachable.performed reachable.created)
  from a b
    stored_hand_size_in_sync [of "''ABC123''" sampleUuid "\<lambda>i. 0" "''e0''" 4 alice sampleGame
      "PlayCard ''e1'' 5 ''B'' ''b1''"]
    stored_hand_size_in_sync [of "''ABC123''" sampleUuid "\<lambda>i. 0" "''e0''" 4 alice
      "snd (perform (AddPlayer sampleUuid (\<lambda>i. 0) ''e1'' 5 ''e2'' 6 bob)
        (createGame ''ABC123'' sampleUuid (\<lambda>i. 0) ''e0'' 4 alice))"]
  show ?thesis by blast
qed

section \<open>Accusing\<close>

text \<open>
  Claim C1, as stated: the party to penalise is decided from the last player of the
  session alone, so that after a lie the 3 penalty cards go to the hand of the last
  player whichever member the request names as accused. The handler gives them to the
  member the request names. In the sample session Alice played the lie; Bob accuses and
  names Carol: Carol receives the 3 cards and Alice's hand stays as it was.
\<close>

theorem accusePlayer_penalty_counterexample:
  "lastPlayerId sampleGame = Some ''A''
   \<and> lastPlayedCard sampleGame = Some \<lparr>card_id = ''a0'', card_type = Lie\<rparr>
   \<and> getPlayerById sampleGame ''A'' = Some alice
   \<and> getPlayerById sampleGame ''C'' = Some carol
   \<and> fst (accusePlayer sampleUuid sampleCoin ''e1'' 5 ''B'' ''C'' sampleGame) = None
   \<and> getPlayerById (snd (accusePlayer sampleUuid sampleCoin ''e1'' 5 ''B'' ''C'' sampleGame)) ''A''
       = Some alice
   \<and> getPlayerById (snd (accusePlayer sampleUuid sampleCoin ''e1'' 5 ''B'' ''C'' sampleGame)) ''C''
       = Some (carol\<lparr>cards := cards carol @ take 3 (createPenaltyCards sampleUuid sampleCoin),
                      cardCount := 5\<rparr>)"
  by (simp add: accusePlayer_def getPlayerById_def sampleGame_def alice_def bob_def carol_def
      Let_def createPenaltyCards_def)

text \<open>
  Claim C1, amended. When the session has a last played card and a last player (a
  non-empty identifier) and both the accusing and the accused identifier of the request
  name members, the accusation succeeds and appends the first 3 penalty cards to exactly
  one hand, chosen from the request and not from the last player: after a lie the hand
  of the first member with the accused identifier, which is the last player when the
  request names the last player; otherwise the hand of the first member with the
  accusing identifier, whichever member is named as accused. No other member changes.
\<close>

theorem accusePlayer_penalty_named_player:
  assumes c: "lastPlayedCard game = Some lastCard"
    and l: "lastPlayerId game = Some lastId" "lastId \<noteq> []"
    and m1: "accusingId \<in> set (map player_id (players game))"
    and m2: "accusedId \<in> set (map player_id (players game))"
  shows "fst (accusePlayer uuid coin eid now accusingId accusedId game) = None
       \<and> length (take 3 (createPenaltyCards uuid coin)) = 3
       \<and> (\<exists>k. findIndex (\<lambda>p. player_id p = (if card_type lastCard = Lie then accusedId else accusingId))
                  (players game) = Some k
              \<and> players (snd (accusePlayer uuid coin eid now accusingId accusedId game))
                  = (players game)
                      [k := (players game ! k)
                         \<lparr>cards := cards (players game ! k) @ take 3 (createPenaltyCards uuid coin),
                          cardCount := length (cards (players game ! k)) + 3\<rparr>])"
proof -
  from m1 obtain accusingIndex where
    a: "findIndex (\<lambda>p. player_id p = accusingId) (players game) = Some accusingIndex"
    by (blast dest: findIndex_member)
  from m2 obtain accusedIndex where
    d: "findIndex (\<lambda>p. player_id p = accusedId) (players game) = Some accusedIndex"
    by (blast dest: findIndex_member)
  note f = accusePlayer_fields [OF c l a d]
  let ?k = "if card_type lastCard = Lie then accusedIndex else accusingIndex"
  have n: "length (take 3 (createPenaltyCards uuid coin)) = 3"
    by (simp add: length_createPenaltyCards del: take_Suc_Cons)
  have k: "findIndex (\<lambda>p. player_id p = (if card_type lastCard = Lie then accusedId else accusingId))
      (players game) = Some ?k"
    using a d by simp
  have "players (snd (accusePlayer uuid coin eid now accusingId accusedId game))
      = (players game)
          [?k := (players game ! ?k)
             \<lparr>cards := cards (players game ! ?k) @ take 3 (createPenaltyCards uuid coin),
              cardCount := length (cards (players game ! ?k)) + 3\<rparr>]"
    unfolding f(2) using n by (simp del: take_Suc_Cons length_take)
  with f(1) n k show ?thesis by blast
qed

text \<open>
  In the sample session Bob accuses Alice, who played the lie: Alice draws. When the
  card was a truth and Bob names Carol, Bob draws.
\<close>

theorem accusePlayer_penalty_named_player_witness:
  "lastPlayedCard sampleGame = Some \<lparr>card_id = ''a0'', card_type = Lie\<rparr>
   \<and> lastPlayerId sampleGame = Some ''A''
   \<and> ''B'' \<in> set (map player_id (players sampleGame))
   \<and> ''A'' \<in> set (map player_id (players sampleGame))
   \<and> fst (accusePlayer sampleUuid sampleCoin ''e1'' 5 ''B'' ''A'' sampleGame) = None
   \<and> findIndex (\<lambda>p. player_id p = ''A'') (players sampleGame) = Some 0
   \<and> players (snd (accusePlayer sampleUuid sampleCoin ''e1'' 5 ''B'' ''A'' sampleGame))
       = (players sampleGame)
           [0 := alice\<lparr>cards := cards alice @ take 3 (createPenaltyCards sampleUuid sampleCoin),
                       cardCount := 5\<rparr>]
   \<and> lastPlayedCard truthGame = Some \<lparr>card_id = ''a0'', card_type = Truth\<rparr>
   \<and> lastPlayerId truthGame = Some ''A''
   \<and> ''B'' \<in> set (map player_id (players truthGame))
   \<and> ''C'' \<in> set (map player_id (players truthGame))
   \<and> fst (accusePlayer sampleUuid sampleCoin ''e1'' 5 ''B'' ''C'' truthGame) = None
   \<and> findIndex (\<lambda>p. player_id p = ''B'') (players truthGame) = Some 1
   \<and> players (snd (accusePlayer sampleUuid sampleCoin ''e1'' 5 ''B'' ''C'' truthGame))
       = (players truthGame)
           [1 := bob\<lparr>cards := cards bob @ take 3 (createPenaltyCards sampleUuid sampleCoin),
                     cardCount := 4\<rparr>]"
proof -
  have c: "lastPlayedCard sampleGame = Some \<lparr>card_id = ''a0'', card_type = Lie\<rparr>"
    by (simp add: sampleGame_def)
  have l: "lastPlayerId sampleGame = Some ''A''" "''A'' \<noteq> []"
    by (simp_all add: sampleGame_def)
  have m1: "''B'' \<in> set (map player_id (players sampleGame))"
    by (simp add: sampleGame_def bob_def)
  have m2: "''A'' \<in> set (map player_id (players sampleGame))"
    by (simp add: sampleGame_def alice_def)
  have i0: "findIndex (\<lambda>p. player_id p = ''A'') (players sampleGame) = Some 0"
    and p0: "players sampleGame ! 0 = alice" and n0: "length (cards alice) + 3 = 5"
    by (simp_all add: sampleGame_def alice_def)
  have c': "lastPlayedCard truthGame = Some \<lparr>card_id = ''a0'', card_type = Truth\<rparr>"
    by (simp add: truthGame_def)
  have l': "lastPlayerId truthGame = Some ''A''"
    by (simp add: truthGame_def sampleGame_def)
  have m1': "''B'' \<in> set (map player_id (players truthGame))"
    by (simp add: truthGame_def sampleGame_def bob_def)
  have m2': "''C'' \<in> set (map player_id (players truthGame))"
    by (simp add: truthGame_def sampleGame_def carol_def)
  have i1: "findIndex (\<lambda>p. player_id p = ''B'') (players truthGame) = Some 1"
    and p1: "players truthGame ! Suc 0 = bob" and n1: "length (cards bob) + 3 = 4"
    by (simp_all add: truthGame_def sampleGame_def alice_def bob_def)
  have lie: "fst (accusePlayer sampleUuid sampleCoin ''e1'' 5 ''B'' ''A'' sampleGame) = None
     \<and> players (snd (accusePlayer sampleUuid sampleCoin ''e1'' 5 ''B'' ''A'' sampleGame))
       = (players sampleGame)
           [0 := alice\<lparr>cards := cards alice @ take 3 (createPenaltyCards sampleUuid sampleCoin),
                       cardCount := 5\<rparr>]"
    using accusePlayer_penalty_named_player [OF c l m1 m2, of sampleUuid sampleCoin "''e1''" 5]
    by (simp add: i0 p0 n0 del: take_Suc_Cons length_take)
  have truth: "fst (accusePlayer sampleUuid sampleCoin ''e1'' 5 ''B'' ''C'' truthGame) = None
     \<and> players (snd (accusePlayer sampleUuid sampleCoin ''e1'' 5 ''B'' ''C'' truthGame))
       = (players truthGame)
           [1 := bob\<lparr>cards := cards bob @ take 3 (createPenaltyCards sampleUuid sampleCoin),
                     cardCount := 4\<rparr>]"
    using accusePlayer_penalty_named_player [OF c' l' l(2) m1' m2', of sampleUuid sampleCoin "''e1''" 5]
    by (simp add: i1 p1 n1 del: take_Suc_Cons length_take)
  from c l(1) m1 m2 i0 lie c' l' m1' m2' i1 truth show ?thesis by blast
qed

section \<open>The phase Finished\<close>

text \<open>
  Claim C2, as stated: no operation moves a session out of the phase Finished. In the
  session that Bob has won, continuing after a revelation sets the phase to Playing, and
  an accusation by Carol succeeds and sets it to Revelation.
\<close>

theorem finished_left_counterexample:
  "phase finishedGame = Finished
   \<and> phase (snd (perform ContinueAfterRevelation finishedGame)) = Playing
   \<and> fst (perform (AccusePlayer sampleUuid sampleCoin ''e2'' 6 ''C'' ''B'') finishedGame) = None
   \<and> phase (snd (perform (AccusePlayer sampleUuid sampleCoin ''e2'' 6 ''C'' ''B'') finishedGame))
       = Revelation"
  by (simp add: finishedGame_def continueAfterRevelation_def accusePlayer_def playCard_def
      sampleGame_def alice_def bob_def carol_def Let_def spliceOut_def)

lemma phase_playCard:
  "phase (snd (playCard eid now pid cid game)) = Finished \<or>
   phase (snd (playCard eid now pid cid game)) = phase game"
proof (cases "fst (playCard eid now pid cid game)")
  case None
  then obtain pidx cardIndex where
    p: "findIndex (\<lambda>p. player_id p = pid) (players game) = Some pidx"
    and cur: "currentPlayerId game = pid"
    and c: "findIndex (\<lambda>c. card_id c = cid) (cards (players game ! pidx)) = Some cardIndex"
    by (rule playCard_success)
  show ?thesis by (simp add: playCard_fields(6) [OF p cur c])
next
  case (Some e)
  then have "snd (playCard eid now pid cid game) = game"
    by (auto simp: playCard_def Let_def split: option.splits if_splits)
  then show ?thesis by simp
qed

lemma phase_accusePlayer:
  "phase (snd (accusePlayer uuid coin eid now accusingId accusedId game))
     = (if fst (accusePlayer uuid coin eid now accusingId accusedId game) = None
        then Revelation else phase game)"
  by (auto simp: accusePlayer_def Let_def split: option.splits)

lemma phase_addPlayerToGame:
  "phase game \<noteq> Waiting \<Longrightarrow>
   phase (snd (addPlayerToGame uuid rnd eid now eid2 now2 player game)) = phase game"
  by (simp add: addPlayerToGame_def Let_def)

lemma phase_removePlayerFromGame:
  "phase (snd (removePlayerFromGame eid now pid game)) = Finished \<or>
   phase (snd (removePlayerFromGame eid now pid game)) = phase game"
  by (simp add: removePlayerFromGame_def Let_def split: option.splits)

text \<open>
  Claim C2, amended. From the phase Finished, playing a card, joining and leaving never
  change the phase; an accusation changes it to Revelation exactly when it succeeds, and
  continuing after a revelation always changes it to Playing: these two handlers write
  the phase without reading it.
\<close>

theorem finished_left_only_by_accuse_or_continue:
  assumes "phase game = Finished"
  shows "phase (snd (perform c game))
       = (case c of
            ContinueAfterRevelation \<Rightarrow> Playing
          | AccusePlayer uuid coin eid now accusingId accusedId \<Rightarrow>
              (if fst (perform c game) = None then Revelation else Finished)
          | _ \<Rightarrow> Finished)"
proof (cases c)
  case (PlayCard eid now pid cid)
  with assms phase_playCard [of eid now pid cid game] show ?thesis by auto
next
  case (AccusePlayer uuid coin eid now accusingId accusedId)
  with assms show ?thesis by (simp add: phase_accusePlayer)
next
  case ContinueAfterRevelation
  then show ?thesis by (simp add: continueAfterRevelation_def)
next
  case (AddPlayer uuid rnd eid now eid2 now2 player)
  with assms show ?thesis by (simp add: phase_addPlayerToGame)
next
  case (RemovePlayer eid now pid)
  with assms phase_removePlayerFromGame [of eid now pid game] show ?thesis by auto
qed

text \<open>In the session that Bob has won: Bob plays again, Alice leaves, Alice joins.\<close>

theorem finished_left_only_by_accuse_or_continue_witness:
  "phase finishedGame = Finished
   \<and> phase (snd (perform (PlayCard ''e2'' 6 ''B'' ''b1'') finishedGame)) = Finished
   \<and> phase (snd (perform (RemovePlayer ''e2'' 6 ''A'') finishedGame)) = Finished
   \<and> phase (snd (perform (AddPlayer sampleUuid (\<lambda>i. 0) ''e2'' 6 ''e3'' 7 alice) finishedGame))
       = Finished"
proof -
  have a: "phase finishedGame = Finished"
    by (simp add: finishedGame_def playCard_def
      sampleGame_def alice_def bob_def carol_def Let_def spliceOut_def)
  from a finished_left_only_by_accuse_or_continue [OF a, of "PlayCard ''e2'' 6 ''B'' ''b1''"]
    finished_left_only_by_accuse_or_continue [OF a, of "RemovePlayer ''e2'' 6 ''A''"]
    finished_left_only_by_accuse_or_continue [OF a,
      of "AddPlayer sampleUuid (\<lambda>i. 0) ''e2'' 6 ''e3'' 7 alice"]
  show ?thesis by simp
qed

end
